theory Spec2Isabelle
  imports Main "HOL-Library.AList"
begin

section \<open>Values\<close>

text \<open>
  Row values are plain data, as the durable file format has them: null, booleans, numbers,
  strings, arrays and keyed objects, plus JavaScript's \<open>undefined\<close>, which the accessor
  functions return for a missing property. Numbers are the integers together with \<open>NaN\<close>
  (the result of \<open>parseFloat\<close> on text that is no number). An object is the list of its
  own properties in insertion order (JavaScript lists keys that are array indices first; no
  property below depends on the order); the prototype chain is not part of the model.
\<close>

datatype jsnum = Fin int | NaN

datatype jv =
    JUndef
  | JNull
  | JBool bool
  | JNum jsnum
  | JStr string
  | JArr "jv list"
  | JObj "(string \<times> jv) list"

text \<open>\<open>x == null\<close>: true of null and undefined only.\<close>

fun nullish :: "jv \<Rightarrow> bool" where
  "nullish JUndef = True"
| "nullish JNull = True"
| "nullish _ = False"


text \<open>\<open>x instanceof Object\<close>, and lodash's \<open>isObject\<close>: arrays and keyed objects.\<close>

fun isObject :: "jv \<Rightarrow> bool" where
  "isObject (JArr xs) = True"
| "isObject (JObj ps) = True"
| "isObject _ = False"

fun num_add :: "jsnum \<Rightarrow> jsnum \<Rightarrow> jsnum" where
  "num_add (Fin a) (Fin b) = Fin (a + b)"
| "num_add _ _ = NaN"

fun num_sub :: "jsnum \<Rightarrow> jsnum \<Rightarrow> jsnum" where
  "num_sub (Fin a) (Fin b) = Fin (a - b)"
| "num_sub _ _ = NaN"

fun num_neg :: "jsnum \<Rightarrow> jsnum" where
  "num_neg (Fin a) = Fin (- a)"
| "num_neg NaN = NaN"

section \<open>Property access\<close>

definition is_digit :: "char \<Rightarrow> bool" where
  "is_digit c = (48 \<le> (of_char c :: nat) \<and> (of_char c :: nat) \<le> 57)"

definition digits_value :: "string \<Rightarrow> nat" where
  "digits_value s = foldl (\<lambda>n c. 10 * n + ((of_char c :: nat) - 48)) 0 s"

text \<open>The decimal numerals without a leading zero: the regular expression \<open>^(?:0|[1-9]\d*)$\<close>.\<close>

definition canonical_uint :: "string \<Rightarrow> bool" where
  "canonical_uint s =
     (case s of
        [] \<Rightarrow> False
      | c # cs \<Rightarrow> list_all is_digit s \<and> (if c = CHR ''0'' then cs = [] else True))"

text \<open>An array index of JavaScript: a canonical numeral below \<open>2^32 - 1\<close>.\<close>

definition array_index :: "string \<Rightarrow> nat option" where
  "array_index k =
     (if canonical_uint k \<and> digits_value k < 4294967295 then Some (digits_value k) else None)"

text \<open>lodash's \<open>isIndex\<close> on a path segment: a canonical numeral below \<open>2^53 - 1\<close>.\<close>

definition isIndex :: "string \<Rightarrow> bool" where
  "isIndex k = (canonical_uint k \<and> digits_value k < 9007199254740991)"

text \<open>
  \<open>object[key]\<close> on own properties. Arrays and strings answer \<open>length\<close> and their
  indices; a missing property reads as undefined.
\<close>

fun getprop :: "jv \<Rightarrow> string \<Rightarrow> jv" where
  "getprop (JObj ps) k = (case map_of ps k of Some v \<Rightarrow> v | None \<Rightarrow> JUndef)"
| "getprop (JArr xs) k =
     (if k = ''length'' then JNum (Fin (int (length xs)))
      else case array_index k of
             Some i \<Rightarrow> (if i < length xs then xs ! i else JUndef)
           | None \<Rightarrow> JUndef)"
| "getprop (JStr s) k =
     (if k = ''length'' then JNum (Fin (int (length s)))
      else case array_index k of
             Some i \<Rightarrow> (if i < length s then JStr [s ! i] else JUndef)
           | None \<Rightarrow> JUndef)"
| "getprop _ k = JUndef"

text \<open>\<open>key in Object(object)\<close>, own properties only.\<close>

fun has_prop :: "jv \<Rightarrow> string \<Rightarrow> bool" where
  "has_prop (JObj ps) k = (k \<in> set (map fst ps))"
| "has_prop (JArr xs) k =
     (k = ''length'' \<or> (case array_index k of Some i \<Rightarrow> i < length xs | None \<Rightarrow> False))"
| "has_prop (JStr s) k =
     (k = ''length'' \<or> (case array_index k of Some i \<Rightarrow> i < length s | None \<Rightarrow> False))"
| "has_prop _ k = False"

text \<open>
  \<open>object[key] = value\<close>. On an array an index inside the array overwrites the element and
  an index beyond its end grows the array, the skipped positions reading as undefined.
  A property of an array that is no index (a name, or \<open>length\<close>) has no place in a list:
  the model leaves the array as it is, and \<open>writable\<close> below excludes that case from the
  theorems that depend on it.
\<close>

fun assignValue :: "jv \<Rightarrow> string \<Rightarrow> jv \<Rightarrow> jv" where
  "assignValue (JObj ps) k v = JObj (AList.update k v ps)"
| "assignValue (JArr xs) k v =
     (case array_index k of
        Some i \<Rightarrow> (if i < length xs then JArr (xs[i := v])
                   else JArr (xs @ replicate (i - length xs) JUndef @ [v]))
      | None \<Rightarrow> JArr xs)"
| "assignValue x k v = x"

text \<open>
  \<open>delete object[key]\<close>. Deleting an array element leaves a hole, which reads as undefined;
  \<open>length\<close> cannot be deleted.
\<close>

fun deleteprop :: "jv \<Rightarrow> string \<Rightarrow> jv" where
  "deleteprop (JObj ps) k = JObj (AList.delete k ps)"
| "deleteprop (JArr xs) k =
     (case array_index k of
        Some i \<Rightarrow> (if i < length xs then JArr (xs[i := JUndef]) else JArr xs)
      | None \<Rightarrow> JArr xs)"
| "deleteprop x k = x"

section \<open>The lodash path functions\<close>

text \<open>
  \<open>String.prototype.split\<close> and \<open>Array.prototype.join\<close> with a one-character separator.
\<close>

fun split_on :: "char \<Rightarrow> string \<Rightarrow> string list" where
  "split_on c [] = [[]]"
| "split_on c (x # xs) =
     (if x = c then [] # split_on c xs
      else (case split_on c xs of
              y # ys \<Rightarrow> (x # y) # ys
            | [] \<Rightarrow> [[x]]))"

fun join_with :: "char \<Rightarrow> string list \<Rightarrow> string" where
  "join_with c [] = []"
| "join_with c [s] = s"
| "join_with c (s # t # ss) = s @ c # join_with c (t # ss)"

text \<open>
  lodash's \<open>castPath\<close>: a string that is an own key of the object, or that has no dot, is
  one segment; any other string is cut at its dots (\<open>stringToPath\<close>). The bracket forms of a
  path (\<open>a[0]\<close>, \<open>a["b"]\<close>) are outside the model, which reads a bracket as a plain
  character.
\<close>

definition stringToPath :: "string \<Rightarrow> string list" where
  "stringToPath p = split_on CHR ''.'' p"

definition isKey :: "string \<Rightarrow> jv \<Rightarrow> bool" where
  "isKey p obj = (if CHR ''.'' \<in> set p then has_prop obj p else True)"

definition castPath :: "string \<Rightarrow> jv \<Rightarrow> string list" where
  "castPath p obj = (if isKey p obj then [p] else stringToPath p)"

text \<open>
  \<open>baseGet\<close>: walk the segments while the current value is neither null nor undefined.
\<close>

fun baseGet :: "jv \<Rightarrow> string list \<Rightarrow> jv" where
  "baseGet obj [] = obj"
| "baseGet obj (k # ks) = (if nullish obj then JUndef else baseGet (getprop obj k) ks)"

definition lodash_get :: "jv \<Rightarrow> string \<Rightarrow> jv" where
  "lodash_get obj p =
     (if nullish obj then JUndef
      else (let path = castPath p obj in if path = [] then JUndef else baseGet obj path))"

text \<open>
  \<open>baseSet\<close>. A segment named \<open>__proto__\<close>, \<open>constructor\<close> or \<open>prototype\<close> stops the
  walk and the object is returned as it is at that point. Below the last segment, a level
  that is no object is replaced by an empty array when the next segment is an index and by
  an empty object otherwise.
\<close>

definition guarded :: "string \<Rightarrow> bool" where
  "guarded k = (k = ''__proto__'' \<or> k = ''constructor'' \<or> k = ''prototype'')"

fun baseSet :: "jv \<Rightarrow> string list \<Rightarrow> jv \<Rightarrow> jv" where
  "baseSet nested [] v = nested"
| "baseSet nested (k # ks) v =
     (if guarded k then nested
      else if ks = [] then assignValue nested k v
      else (let objValue = getprop nested k;
                newValue = (if isObject objValue then objValue
                            else if isIndex (hd ks) then JArr [] else JObj [])
            in assignValue nested k (baseSet newValue ks v)))"

definition lodash_set :: "jv \<Rightarrow> string \<Rightarrow> jv \<Rightarrow> jv" where
  "lodash_set obj p v = (if \<not> isObject obj then obj else baseSet obj (castPath p obj) v)"

text \<open>
  \<open>baseUnset\<close>: find the parent of the last segment and delete the property there; nothing
  happens when the parent is missing. With no segment at all, lodash deletes the property
  named \<open>undefined\<close>.
\<close>

fun baseUnset :: "jv \<Rightarrow> string list \<Rightarrow> jv" where
  "baseUnset obj [] = deleteprop obj ''undefined''"
| "baseUnset obj [k] = deleteprop obj k"
| "baseUnset obj (k # k' # ks) =
     (let child = getprop obj k
      in if isObject child then assignValue obj k (baseUnset child (k' # ks)) else obj)"

definition lodash_unset :: "jv \<Rightarrow> string \<Rightarrow> jv" where
  "lodash_unset obj p = (if nullish obj then obj else baseUnset obj (castPath p obj))"

section \<open>The in-memory table store\<close>

text \<open>
  The file-backed driver extends \<open>MemoryDriver\<close>. Its state is the store (table name to
  rows, both in insertion order), the snapshot file (absent, or its text) and a record of
  the effects that the properties count: each row written by the table store and each file
  write. A row id is a value, since the loader stores whatever \<open>d.id\<close> is; the calls of
  the driver contract take strings.
\<close>

type_synonym table = "(jv \<times> jv) list"

type_synonym snapshot = "(string \<times> table) list"

datatype effect = RowSet string string jv | FileWrite string

record driver =
  store :: "(string \<times> table) list"
  disk :: "string option"
  effects :: "effect list"

text \<open>
  Modelled from the spec: \<open>MemoryDriver.getOrCreateTable\<close>, whose source is missing.
  It returns the existing table or creates and registers an empty one, and never fails.
\<close>

definition getOrCreateTable :: "string \<Rightarrow> driver \<Rightarrow> table \<times> driver" where
  "getOrCreateTable name st =
     (case map_of (store st) name of
        Some t \<Rightarrow> (t, st)
      | None \<Rightarrow> ([], st\<lparr>store := store st @ [(name, [])]\<rparr>))"

text \<open>
  Modelled from the spec: \<open>MemoryDriver.getRowByKey\<close>, whose source is missing.
  It returns the row's value, or null when the row is absent, and whether the id was set.
\<close>

definition getRowByKey :: "string \<Rightarrow> string \<Rightarrow> driver \<Rightarrow> (jv \<times> bool) \<times> driver" where
  "getRowByKey tbl key st =
     (let (t, st1) = getOrCreateTable tbl st
      in (case map_of t (JStr key) of
            Some v \<Rightarrow> ((v, True), st1)
          | None \<Rightarrow> ((JNull, False), st1)))"

text \<open>
  Modelled from the spec: \<open>MemoryDriver.setRowByKey\<close>, whose source is missing.
  It inserts or overwrites the row and returns the stored value unchanged; the hint whether
  the row existed is accepted and not used.
\<close>

definition mem_setRowByKey :: "string \<Rightarrow> string \<Rightarrow> jv \<Rightarrow> bool \<Rightarrow> driver \<Rightarrow> jv \<times> driver" where
  "mem_setRowByKey tbl key v update st =
     (let (t, st1) = getOrCreateTable tbl st
      in (v, st1\<lparr>store := AList.update tbl (AList.update (JStr key) v t) (store st1),
                 effects := effects st1 @ [RowSet tbl key v]\<rparr>))"



text \<open>
  Modelled from the spec: \<open>MemoryDriver.getAllRows\<close>, whose source is missing.
  It lists the rows of the table in the table's order.
\<close>

definition getAllRows :: "string \<Rightarrow> driver \<Rightarrow> table \<times> driver" where
  "getAllRows tbl st = getOrCreateTable tbl st"

text \<open>Modelled from the spec: \<open>MemoryDriver.prepare\<close>, which registers the table.\<close>

definition prepare :: "string \<Rightarrow> driver \<Rightarrow> driver" where
  "prepare tbl st = snd (getOrCreateTable tbl st)"

section \<open>The file-backed driver\<close>

text \<open>
  The functions of the JavaScript runtime that the code calls and that are no part of the
  repository are parameters: \<open>JSON.parse\<close> (\<open>None\<close> when it throws a syntax error),
  \<open>JSON.stringify\<close> with the driver's replacer and spacing, and \<open>parseFloat\<close>, which
  returns a number for every argument and \<open>NaN\<close> where the text starts with no numeral.
\<close>

record runtime =
  JSON_parse :: "string \<Rightarrow> jv option"
  JSON_stringify :: "snapshot \<Rightarrow> string"
  parseFloat :: "jv \<Rightarrow> jsnum"

datatype error =
    MissingValue
  | NotANumber
  | NotAnArray
  | DatabaseMalformed

text \<open>\<open>JSONDriver.export\<close>: every registered table with all its rows.\<close>

fun export_tables :: "string list \<Rightarrow> snapshot \<Rightarrow> driver \<Rightarrow> snapshot \<times> driver" where
  "export_tables [] val st = (val, st)"
| "export_tables (tableName # names) val st =
     (let (rows, st1) = getAllRows tableName st
      in export_tables names (AList.update tableName rows val) st1)"

definition export :: "driver \<Rightarrow> snapshot \<times> driver" where
  "export st = export_tables (map fst (store st)) [] st"

text \<open>
  \<open>JSONDriver.snapshot\<close>: export, then write the serialised export to the file. Calls are
  taken one at a time, so the lock that orders overlapping writes does not appear.
\<close>

definition snapshot :: "runtime \<Rightarrow> driver \<Rightarrow> driver" where
  "snapshot rt st =
     (let (data, st1) = export st;
          text = JSON_stringify rt data
      in st1\<lparr>disk := Some text, effects := effects st1 @ [FileWrite text]\<rparr>)"



definition setRowByKey ::
  "runtime \<Rightarrow> string \<Rightarrow> string \<Rightarrow> jv \<Rightarrow> bool \<Rightarrow> driver \<Rightarrow> jv \<times> driver" where
  "setRowByKey rt tbl key v update st =
     (let (val, st1) = mem_setRowByKey tbl key v update st in (val, snapshot rt st1))"

text \<open>
  \<open>JSONDriver.loadContentSync\<close>. \<open>for (table in data)\<close> visits the keys of an object
  and the indices of an array or of a string; \<open>data[table].forEach\<close> throws unless
  \<open>data[table]\<close> is an array, and reading \<open>d.id\<close> throws when \<open>d\<close> is null or
  undefined. Every exception inside the \<open>try\<close> becomes "Database malformed".
\<close>

fun string_of_nat :: "nat \<Rightarrow> string" where
  "string_of_nat n =
     (if n < 10 then [char_of (48 + n)]
      else string_of_nat (n div 10) @ [char_of (48 + n mod 10)])"

declare string_of_nat.simps [simp del]

fun for_in_keys :: "jv \<Rightarrow> string list" where
  "for_in_keys (JObj ps) = map fst ps"
| "for_in_keys (JArr xs) = map (\<lambda>i. string_of_nat i) [0..<length xs]"
| "for_in_keys (JStr s) = map (\<lambda>i. string_of_nat i) [0..<length s]"
| "for_in_keys _ = []"

fun load_rows :: "string \<Rightarrow> jv list \<Rightarrow> driver \<Rightarrow> error + driver" where
  "load_rows tbl [] st = Inr st"
| "load_rows tbl (d # ds) st =
     (if nullish d then Inl DatabaseMalformed
      else load_rows tbl ds
             (st\<lparr>store := AList.update tbl
                   (AList.update (getprop d ''id'') (getprop d ''value'')
                      (case map_of (store st) tbl of Some t \<Rightarrow> t | None \<Rightarrow> []))
                   (store st)\<rparr>))"

fun load_tables :: "jv \<Rightarrow> string list \<Rightarrow> driver \<Rightarrow> error + driver" where
  "load_tables data [] st = Inr st"
| "load_tables data (tbl # tbls) st =
     (let (t, st1) = getOrCreateTable tbl st
      in (case getprop data tbl of
            JArr ds \<Rightarrow>
              (case load_rows tbl ds st1 of
                 Inl e \<Rightarrow> Inl e
               | Inr st2 \<Rightarrow> load_tables data tbls st2)
          | _ \<Rightarrow> Inl DatabaseMalformed))"

definition loadContentSync :: "runtime \<Rightarrow> driver \<Rightarrow> error + driver" where
  "loadContentSync rt st =
     (case disk st of
        Some contents \<Rightarrow>
          (case JSON_parse rt contents of
             None \<Rightarrow> Inl DatabaseMalformed
           | Some data \<Rightarrow> load_tables data (for_in_keys data) st)
      | None \<Rightarrow> Inr (st\<lparr>disk := Some ''{}'', effects := effects st @ [FileWrite ''{}'']\<rparr>))"

text \<open>
  The constructor: an empty store, then \<open>loadContentSync\<close>. The argument is the file at
  the driver's path before construction.
\<close>

definition JSONDriver_new :: "runtime \<Rightarrow> string option \<Rightarrow> error + driver" where
  "JSONDriver_new rt file = loadContentSync rt \<lparr>store = [], disk = file, effects = []\<rparr>"

section \<open>The store: \<open>QuickDB\<close>\<close>

text \<open>
  A \<open>QuickDB\<close> is a table name and the driver it shares; the functions take both. A key is
  a string by its type, so the check that rejects other keys has no branch here. A call
  returns its result, or the error it throws, together with the driver's state at that
  point.
\<close>

definition dotted :: "string \<Rightarrow> bool" where
  "dotted key = (CHR ''.'' \<in> set key)"

definition QuickDB_get :: "string \<Rightarrow> string \<Rightarrow> driver \<Rightarrow> jv \<times> driver" where
  "QuickDB_get tableName key st =
     (if dotted key then
        (let keySplit = split_on CHR ''.'' key;
             ((result, exist), st1) = getRowByKey tableName (hd keySplit) st
         in (lodash_get result (join_with CHR ''.'' (tl keySplit)), st1))
      else
        (let ((result, exist), st1) = getRowByKey tableName key st
         in (result, st1)))"

definition QuickDB_set ::
  "runtime \<Rightarrow> string \<Rightarrow> string \<Rightarrow> jv \<Rightarrow> driver \<Rightarrow> (error + jv) \<times> driver" where
  "QuickDB_set rt tableName key v st =
     (if nullish v then (Inl MissingValue, st)
      else if dotted key then
        (let keySplit = split_on CHR ''.'' key;
             ((result, exist), st1) = getRowByKey tableName (hd keySplit) st;
             obj = (if \<not> isObject result then JObj [] else result);
             valueSet = lodash_set obj (join_with CHR ''.'' (tl keySplit)) v;
             (val, st2) = setRowByKey rt tableName (hd keySplit) valueSet exist st1
         in (Inr val, st2))
      else
        (let ((result, exist), st1) = getRowByKey tableName key st;
             (val, st2) = setRowByKey rt tableName key v exist st1
         in (Inr val, st2)))"

definition QuickDB_has :: "string \<Rightarrow> string \<Rightarrow> driver \<Rightarrow> bool \<times> driver" where
  "QuickDB_has tableName key st =
     (let (result, st1) = QuickDB_get tableName key st in (\<not> nullish result, st1))"



text \<open>
  \<open>addSubtract\<close>. The amount is a number by its type. \<open>parseFloat\<close> returns for every
  argument, so the \<open>catch\<close> around it, which would throw the error \<open>NotANumber\<close>
  stands for, is never entered.
\<close>

definition addSubtract ::
  "runtime \<Rightarrow> string \<Rightarrow> string \<Rightarrow> jsnum \<Rightarrow> bool \<Rightarrow> driver \<Rightarrow> (error + jv) \<times> driver" where
  "addSubtract rt tableName key amount sub st =
     (let (current, st1) = QuickDB_get tableName key st;
          current1 = (if nullish current then JNum (Fin 0) else current);
          currentNumber = (case current1 of JNum x \<Rightarrow> x | other \<Rightarrow> parseFloat rt other);
          newNumber = (if sub then num_sub currentNumber amount else num_add currentNumber amount)
      in QuickDB_set rt tableName key (JNum newNumber) st1)"

definition QuickDB_add ::
  "runtime \<Rightarrow> string \<Rightarrow> string \<Rightarrow> jsnum \<Rightarrow> driver \<Rightarrow> (error + jv) \<times> driver" where
  "QuickDB_add rt tableName key amount st = addSubtract rt tableName key amount False st"





definition sameValueZero :: "jv \<Rightarrow> jv \<Rightarrow> bool" where
  "sameValueZero a b = (\<not> isObject a \<and> a = b)"

definition array_includes :: "jv list \<Rightarrow> jv \<Rightarrow> bool" where
  "array_includes vs x = list_ex (\<lambda>y. sameValueZero y x) vs"



text \<open>The constructor of \<open>QuickDB\<close> prepares its table on the driver.\<close>

definition QuickDB_new :: "string \<Rightarrow> driver \<Rightarrow> driver" where
  "QuickDB_new tableName st = prepare tableName st"

section \<open>Notions used by the properties\<close>

text \<open>The value stored in a row, and whether a table is registered in the store.\<close>

definition row :: "driver \<Rightarrow> string \<Rightarrow> string \<Rightarrow> jv option" where
  "row st tbl key =
     (case map_of (store st) tbl of
        None \<Rightarrow> None
      | Some t \<Rightarrow> map_of t (JStr key))"


text \<open>
  The object a dotted \<open>set\<close> writes into: the row's value when it is an array or a keyed
  object, and the empty object otherwise.
\<close>

definition root_object :: "driver \<Rightarrow> string \<Rightarrow> string \<Rightarrow> jv" where
  "root_object st tbl key =
     (case row st tbl key of
        None \<Rightarrow> JObj []
      | Some r \<Rightarrow> (if isObject r then r else JObj []))"


text \<open>
  The object a dotted \<open>delete\<close> removes the leaf from: the row's value, or the empty
  object when the row is absent or holds null.
\<close>

definition coalesced_row :: "driver \<Rightarrow> string \<Rightarrow> string \<Rightarrow> jv" where
  "coalesced_row st tbl key =
     (case row st tbl key of
        None \<Rightarrow> JObj []
      | Some r \<Rightarrow> (if nullish r then JObj [] else r))"


text \<open>The leaf a path names exists: every segment is an own property of the level it meets.\<close>

fun has_path :: "jv \<Rightarrow> string list \<Rightarrow> bool" where
  "has_path obj [] = False"
| "has_path obj [k] = has_prop obj k"
| "has_path obj (k # k' # ks) = (has_prop obj k \<and> has_path (getprop obj k) (k' # ks))"




text \<open>
  A runtime and drivers for the worked examples. The examples parse no text but \<open>{}\<close> and
  one that is no JSON, and hand \<open>parseFloat\<close> no text that starts with a numeral.
\<close>

definition example_runtime :: runtime where
  "example_runtime =
     \<lparr>JSON_parse = (\<lambda>s. if s = ''{}'' then Some (JObj []) else None),
      JSON_stringify = (\<lambda>d. ''<snapshot>''),
      parseFloat = (\<lambda>v. NaN)\<rparr>"

definition fresh_db :: driver where
  "fresh_db = \<lparr>store = [(''json'', [])], disk = Some ''{}'', effects = []\<rparr>"

definition db_with :: "string \<Rightarrow> jv \<Rightarrow> driver" where
  "db_with key v = \<lparr>store = [(''json'', [(JStr key, v)])], disk = Some ''{}'', effects = []\<rparr>"


section \<open>Lemmas on the table store and the driver\<close>

lemma getOrCreateTable_registered:
  "map_of (store st) n = Some t \<Longrightarrow> getOrCreateTable n st = (t, st)"
  by (simp add: getOrCreateTable_def)

lemma getOrCreateTable_new:
  "map_of (store st) n = None \<Longrightarrow>
   getOrCreateTable n st = ([], st\<lparr>store := store st @ [(n, [])]\<rparr>)"
  by (simp add: getOrCreateTable_def)

lemma map_of_prepare:
  "map_of (store (prepare n st)) m =
     (if m = n \<and> map_of (store st) n = None then Some [] else map_of (store st) m)"
  by (auto simp: prepare_def getOrCreateTable_def map_add_def split: option.splits)

lemma getOrCreateTable_eq:
  "getOrCreateTable n st =
     ((case map_of (store st) n of Some t \<Rightarrow> t | None \<Rightarrow> []), prepare n st)"
  by (simp add: prepare_def getOrCreateTable_def split: option.splits)

lemma prepare_fields [simp]:
  "disk (prepare n st) = disk st" "effects (prepare n st) = effects st"
  by (simp_all add: prepare_def getOrCreateTable_def split: option.splits)


lemma row_prepare [simp]: "row (prepare n st) tbl key = row st tbl key"
  by (simp add: row_def map_of_prepare split: option.splits)

lemma getRowByKey_eq:
  "getRowByKey tbl key st =
     ((case row st tbl key of Some v \<Rightarrow> (v, True) | None \<Rightarrow> (JNull, False)), prepare tbl st)"
  by (simp add: getRowByKey_def getOrCreateTable_eq row_def split: option.splits)

lemma export_tables_registered:
  "\<forall>n \<in> set names. map_of (store st) n \<noteq> None \<Longrightarrow>
   snd (export_tables names val st) = st \<and>
   map_of (fst (export_tables names val st)) m =
     (if m \<in> set names then map_of (store st) m else map_of val m)"
proof (induction names arbitrary: val)
  case Nil
  then show ?case by simp
next
  case (Cons a names)
  then obtain t where t: "map_of (store st) a = Some t" by auto
  from Cons.prems have r: "\<forall>n \<in> set names. map_of (store st) n \<noteq> None" by simp
  have ih: "snd (export_tables names (AList.update a t val) st) = st"
    "map_of (fst (export_tables names (AList.update a t val) st)) m =
     (if m \<in> set names then map_of (store st) m else map_of (AList.update a t val) m)"
    using Cons.IH[OF r, of "AList.update a t val"] by simp_all
  show ?case using t ih
    by (auto simp: getAllRows_def getOrCreateTable_registered update_conv')
qed

lemma export_eq:
  "snd (export st) = st" "map_of (fst (export st)) m = map_of (store st) m"
proof -
  have a: "\<forall>n \<in> set (map fst (store st)). map_of (store st) n \<noteq> None"
    by (metis map_of_eq_None_iff set_map)
  show "snd (export st) = st"
    using export_tables_registered[OF a, of "[]"] by (simp add: export_def)
  show "map_of (fst (export st)) m = map_of (store st) m"
  proof (cases "m \<in> set (map fst (store st))")
    case True
    then show ?thesis
      using export_tables_registered[OF a, of "[]" m] by (simp add: export_def)
  next
    case False
    then have "map_of (store st) m = None" by (simp add: map_of_eq_None_iff)
    then show ?thesis
      using export_tables_registered[OF a, of "[]" m] False by (simp add: export_def)
  qed
qed

lemma snapshot_eq:
  "snapshot rt st =
     st\<lparr>disk := Some (JSON_stringify rt (fst (export st))),
        effects := effects st @ [FileWrite (JSON_stringify rt (fst (export st)))]\<rparr>"
proof -
  obtain d s where e: "export st = (d, s)" by (cases "export st")
  then have "s = st" using export_eq(1)[of st] by simp
  then show ?thesis using e by (simp add: snapshot_def Let_def)
qed

lemma snapshot_fields [simp]:
  "store (snapshot rt st) = store st"
  "effects (snapshot rt st) = effects st @ [FileWrite (JSON_stringify rt (fst (export st)))]"
  "disk (snapshot rt st) = Some (JSON_stringify rt (fst (export st)))"
  by (simp_all add: snapshot_eq)

lemma row_snapshot [simp]: "row (snapshot rt st) tbl key = row st tbl key"
  by (simp add: row_def)

lemma mem_setRowByKey_fst [simp]: "fst (mem_setRowByKey tbl key v u st) = v"
  by (simp add: mem_setRowByKey_def split: prod.splits)

lemma mem_setRowByKey_effects [simp]:
  "effects (snd (mem_setRowByKey tbl key v u st)) = effects st @ [RowSet tbl key v]"
  by (simp add: mem_setRowByKey_def getOrCreateTable_eq)

lemma mem_setRowByKey_disk [simp]:
  "disk (snd (mem_setRowByKey tbl key v u st)) = disk st"
  by (simp add: mem_setRowByKey_def getOrCreateTable_eq)

lemma mem_setRowByKey_store:
  "map_of (store (snd (mem_setRowByKey tbl key v u st))) =
     (map_of (store st))(tbl \<mapsto> AList.update (JStr key) v
        (case map_of (store st) tbl of Some t \<Rightarrow> t | None \<Rightarrow> []))"
  by (auto simp: mem_setRowByKey_def getOrCreateTable_eq update_conv' map_of_prepare fun_eq_iff
           split: option.splits)

lemma row_mem_setRowByKey:
  "row (snd (mem_setRowByKey tbl key v u st)) tbl' key' =
     (if tbl' = tbl \<and> key' = key then Some v else row st tbl' key')"
  by (auto simp: row_def mem_setRowByKey_store update_conv' split: option.splits)

lemma setRowByKey_fst [simp]: "fst (setRowByKey rt tbl key v u st) = v"
  by (simp add: setRowByKey_def split: prod.splits) (metis fst_conv mem_setRowByKey_fst)

lemma setRowByKey_snd:
  "snd (setRowByKey rt tbl key v u st) = snapshot rt (snd (mem_setRowByKey tbl key v u st))"
  by (simp add: setRowByKey_def split: prod.splits)

lemma row_setRowByKey:
  "row (snd (setRowByKey rt tbl key v u st)) tbl' key' =
     (if tbl' = tbl \<and> key' = key then Some v else row st tbl' key')"
  by (simp add: setRowByKey_snd row_mem_setRowByKey)

lemma effects_setRowByKey:
  "\<exists>text. effects (snd (setRowByKey rt tbl key v u st)) =
     effects st @ [RowSet tbl key v, FileWrite text]"
  by (simp add: setRowByKey_snd)





lemma QuickDB_get_flat:
  "\<not> dotted key \<Longrightarrow>
   QuickDB_get T key st = ((case row st T key of Some v \<Rightarrow> v | None \<Rightarrow> JNull), prepare T st)"
  by (simp add: QuickDB_get_def getRowByKey_eq split: option.splits)

lemma QuickDB_get_dotted:
  "dotted key \<Longrightarrow>
   QuickDB_get T key st =
     (lodash_get (case row st T (hd (split_on CHR ''.'' key)) of Some v \<Rightarrow> v | None \<Rightarrow> JNull)
        (join_with CHR ''.'' (tl (split_on CHR ''.'' key))), prepare T st)"
  by (simp add: QuickDB_get_def getRowByKey_eq Let_def split: option.splits)

lemma QuickDB_set_flat:
  "\<not> dotted key \<Longrightarrow> \<not> nullish v \<Longrightarrow>
   QuickDB_set rt T key v st =
     (Inr v, snd (setRowByKey rt T key v (row st T key \<noteq> None) (prepare T st)))"
  by (simp add: QuickDB_set_def getRowByKey_eq Let_def split: option.splits prod.splits)
     (metis fst_conv setRowByKey_fst snd_conv)

lemma QuickDB_set_dotted:
  "dotted key \<Longrightarrow> \<not> nullish v \<Longrightarrow>
   QuickDB_set rt T key v st =
     (Inr (lodash_set (root_object st T (hd (split_on CHR ''.'' key)))
             (join_with CHR ''.'' (tl (split_on CHR ''.'' key))) v),
      snd (setRowByKey rt T (hd (split_on CHR ''.'' key))
             (lodash_set (root_object st T (hd (split_on CHR ''.'' key)))
                (join_with CHR ''.'' (tl (split_on CHR ''.'' key))) v)
             (row st T (hd (split_on CHR ''.'' key)) \<noteq> None) (prepare T st)))"
  by (simp add: QuickDB_set_def getRowByKey_eq Let_def root_object_def split: option.splits prod.splits)
     (metis fst_conv setRowByKey_fst snd_conv)+

lemma array_index_length [simp]: "array_index ''length'' = None"
  by (simp add: array_index_def canonical_uint_def is_digit_def)

lemma array_index_no_dot: "CHR ''.'' \<in> set p \<Longrightarrow> array_index p = None"
proof -
  assume d: "CHR ''.'' \<in> set p"
  have "\<not> is_digit CHR ''.''" by (simp add: is_digit_def)
  with d have "\<not> list_all is_digit p" by (auto simp: list_all_iff)
  then have "\<not> canonical_uint p" by (cases p) (auto simp: canonical_uint_def)
  then show ?thesis by (simp add: array_index_def)
qed

lemma isObject_assignValue [simp]: "isObject (assignValue nested k v) = isObject nested"
  by (cases nested) (auto split: option.splits)





lemma split_on_nonempty [simp]: "split_on c s \<noteq> []"
  by (induction s) (auto split: list.splits)



lemma has_prop_dotted_array:
  "CHR ''.'' \<in> set p \<Longrightarrow> \<not> has_prop (JArr xs) p"
  by (auto simp: array_index_no_dot)

lemma has_prop_assignValue_same:
  "has_prop (JObj ps) p \<Longrightarrow> has_prop (assignValue (JObj ps) p v) p"
  by (simp add: update_keys)



lemma isObject_baseSet [simp]: "isObject (baseSet obj ks v) = isObject obj"
  by (cases ks) (auto simp: Let_def)


lemma castPath_nonempty [simp]: "castPath p obj \<noteq> []"
  by (simp add: castPath_def stringToPath_def)


lemma isObject_lodash_set [simp]: "isObject (lodash_set obj p v) = isObject obj"
  by (simp add: lodash_set_def)

lemma isObject_root_object [simp]: "isObject (root_object st T k)"
  by (simp add: root_object_def split: option.splits)

section \<open>Round trip of \<open>set\<close> and \<open>get\<close>\<close>







section \<open>Dotted \<open>set\<close> on a row that holds no object\<close>

lemma root_object_non_object:
  "(case row st T k of None \<Rightarrow> True | Some r \<Rightarrow> \<not> isObject r) \<Longrightarrow> root_object st T k = JObj []"
  by (simp add: root_object_def split: option.splits)

text \<open>
  Claim C2, as amended. For every dotted key and non-null value, when the root row is absent
  or holds a value that is no object instance (null, a boolean, a number or a string), the
  nested path is written into an empty object, which replaces the row: the result and the
  stored row are what \<open>lodash_set\<close> makes of the empty object, and the prior content does
  not enter.
\<close>

theorem dotted_set_rewrites_non_object:
  assumes "dotted key" and "\<not> nullish v"
    and "case row st T (hd (split_on CHR ''.'' key)) of None \<Rightarrow> True | Some r \<Rightarrow> \<not> isObject r"
  shows "fst (QuickDB_set rt T key v st) =
           Inr (lodash_set (JObj []) (join_with CHR ''.'' (tl (split_on CHR ''.'' key))) v) \<and>
         row (snd (QuickDB_set rt T key v st)) T (hd (split_on CHR ''.'' key)) =
           Some (lodash_set (JObj []) (join_with CHR ''.'' (tl (split_on CHR ''.'' key))) v)"
  using assms
  by (simp add: QuickDB_set_dotted row_setRowByKey root_object_non_object)

text \<open>The theorem where row \<open>a\<close> holds the number 3: the 3 is gone and the row is \<open>{b: 5}\<close>.\<close>

theorem dotted_set_rewrites_non_object_witness:
  "fst (QuickDB_set example_runtime ''json'' ''a.b'' (JNum (Fin 5)) (db_with ''a'' (JNum (Fin 3)))) =
     Inr (JObj [(''b'', JNum (Fin 5))]) \<and>
   row (snd (QuickDB_set example_runtime ''json'' ''a.b'' (JNum (Fin 5)) (db_with ''a'' (JNum (Fin 3)))))
     ''json'' ''a'' = Some (JObj [(''b'', JNum (Fin 5))])"
proof -
  have d: "dotted ''a.b''" by (simp add: dotted_def)
  have n: "\<not> nullish (JNum (Fin 5))" by simp
  have r: "case row (db_with ''a'' (JNum (Fin 3))) ''json'' (hd (split_on CHR ''.'' ''a.b'')) of
             None \<Rightarrow> True | Some r \<Rightarrow> \<not> isObject r"
    by (simp add: row_def db_with_def)
  have s: "lodash_set (JObj []) (join_with CHR ''.'' (tl (split_on CHR ''.'' ''a.b''))) (JNum (Fin 5)) =
           JObj [(''b'', JNum (Fin 5))]"
    by (simp add: lodash_set_def castPath_def isKey_def guarded_def)
  show ?thesis
    using dotted_set_rewrites_non_object[OF d n r, of example_runtime] s by simp
qed

text \<open>
  Claim C2 as stated fails where the row holds an array, which is a sequence and no keyed
  structure, yet an instance of \<open>Object\<close>: it is kept and written into.
\<close>

theorem dotted_set_keeps_array_counterexample:
  "row (snd (QuickDB_set example_runtime ''json'' ''a.0'' (JNum (Fin 9))
               (db_with ''a'' (JArr [JNum (Fin 1), JNum (Fin 2)])))) ''json'' ''a'' =
     Some (JArr [JNum (Fin 9), JNum (Fin 2)]) \<and>
   row (snd (QuickDB_set example_runtime ''json'' ''a.0'' (JNum (Fin 9))
               (db_with ''a'' (JArr [JNum (Fin 1), JNum (Fin 2)])))) ''json'' ''a'' \<noteq>
     Some (lodash_set (JObj []) ''0'' (JNum (Fin 9)))"
proof -
  have d: "dotted ''a.0''" by (simp add: dotted_def)
  have r: "root_object (db_with ''a'' (JArr [JNum (Fin 1), JNum (Fin 2)])) ''json'' ''a'' =
             JArr [JNum (Fin 1), JNum (Fin 2)]"
    by (simp add: root_object_def row_def db_with_def)
  have i: "array_index ''0'' = Some 0"
    by (simp add: array_index_def canonical_uint_def is_digit_def digits_value_def)
  have s: "lodash_set (JArr [JNum (Fin 1), JNum (Fin 2)]) ''0'' (JNum (Fin 9)) =
             JArr [JNum (Fin 9), JNum (Fin 2)]"
    by (simp add: lodash_set_def castPath_def isKey_def guarded_def i)
  have t: "lodash_set (JObj []) ''0'' (JNum (Fin 9)) = JObj [(''0'', JNum (Fin 9))]"
    by (simp add: lodash_set_def castPath_def isKey_def guarded_def)
  show ?thesis using d r s t
    by (simp add: QuickDB_set_dotted row_setRowByKey)
qed

section \<open>Arithmetic and array operations\<close>

lemma QuickDB_get_snd [simp]: "snd (QuickDB_get T key st) = prepare T st"
  by (cases "dotted key") (simp_all add: QuickDB_get_flat QuickDB_get_dotted)

lemma lodash_get_nullish [simp]: "nullish obj \<Longrightarrow> lodash_get obj p = JUndef"
  by (simp add: lodash_get_def)


lemma addSubtract_eq:
  "addSubtract rt T key amount sub st =
     QuickDB_set rt T key
       (JNum (let current = fst (QuickDB_get T key st);
                  currentNumber = (if nullish current then Fin 0
                                   else case current of JNum x \<Rightarrow> x | other \<Rightarrow> parseFloat rt other)
              in if sub then num_sub currentNumber amount else num_add currentNumber amount))
       (prepare T st)"
proof -
  obtain c s where g: "QuickDB_get T key st = (c, s)" by (cases "QuickDB_get T key st")
  then have s: "s = prepare T st" using QuickDB_get_snd[of T key st] by simp
  show ?thesis using g s by (cases c) (simp_all add: addSubtract_def Let_def)
qed

lemma num_add_zero [simp]: "num_add (Fin 0) n = n"
  by (cases n) simp_all

lemma num_sub_zero [simp]: "num_sub (Fin 0) n = num_neg n"
  by (cases n) simp_all

lemma row_db_with [simp]: "row (db_with k v) ''json'' k' = (if k' = k then Some v else None)"
  by (simp add: row_def db_with_def)

lemma row_fresh_db [simp]: "row fresh_db T k = None"
  by (simp add: row_def fresh_db_def)

text \<open>
  Claim C3 at the input where the code departs from it. Row \<open>n\<close> holds the text
  \<open>not a number\<close>. Whatever number \<open>parseFloat\<close> makes of it, \<open>add\<close> returns normally
  and the row is overwritten with a number: there is no error and the text is lost.
\<close>

theorem add_on_text_writes:
  "fst (QuickDB_add rt ''json'' ''n'' (Fin 5) (db_with ''n'' (JStr ''not a number''))) =
     Inr (JNum (num_add (parseFloat rt (JStr ''not a number'')) (Fin 5))) \<and>
   row (snd (QuickDB_add rt ''json'' ''n'' (Fin 5) (db_with ''n'' (JStr ''not a number''))))
     ''json'' ''n'' = Some (JNum (num_add (parseFloat rt (JStr ''not a number'')) (Fin 5)))"
proof -
  have d: "\<not> dotted ''n''" by (simp add: dotted_def)
  show ?thesis
    using d by (simp add: QuickDB_add_def addSubtract_eq QuickDB_get_flat QuickDB_set_flat
                  row_setRowByKey)
qed







section \<open>\<open>pull\<close>\<close>




lemma array_includes_single [simp]: "array_includes [v] x = sameValueZero v x"
  by (simp add: array_includes_def)








section \<open>\<open>delete\<close>\<close>

lemma prepare_idem [simp]: "prepare T (prepare T st) = prepare T st"
  by (simp add: prepare_def getOrCreateTable_def split: option.splits)

lemma nullish_deleteprop [simp]: "nullish (deleteprop obj k) = nullish obj"
  by (cases obj) (auto split: option.splits)

lemma nullish_assignValue [simp]: "nullish (assignValue obj k v) = nullish obj"
  by (cases obj) (auto split: option.splits)

lemma nullish_baseUnset [simp]: "nullish (baseUnset obj ks) = nullish obj"
  by (induction obj ks rule: baseUnset.induct) (auto simp: Let_def)

lemma nullish_lodash_unset [simp]: "nullish (lodash_unset obj p) = nullish obj"
  by (simp add: lodash_unset_def)

lemma not_nullish_coalesced_row [simp]: "\<not> nullish (coalesced_row st T k)"
  by (simp add: coalesced_row_def split: option.splits)



lemma deleteprop_absent: "\<not> has_prop obj k \<Longrightarrow> deleteprop obj k = obj"
  by (cases obj) (auto split: option.splits)

lemma assignValue_getprop:
  "isObject (getprop obj k) \<Longrightarrow> assignValue obj k (getprop obj k) = obj"
proof (cases obj)
  case (JObj ps)
  assume "isObject (getprop obj k)"
  then obtain v where "map_of ps k = Some v" using JObj by (auto split: option.splits)
  then show ?thesis using JObj by (simp add: update_triv)
qed (auto split: option.splits if_splits)

lemma baseUnset_no_path:
  "ks \<noteq> [] \<Longrightarrow> \<not> has_path obj ks \<Longrightarrow> baseUnset obj ks = obj"
proof (induction obj ks rule: baseUnset.induct)
  case (3 obj k k' ks)
  show ?case
  proof (cases "isObject (getprop obj k)")
    case False
    then show ?thesis by (simp add: Let_def)
  next
    case True
    then have hp: "has_prop obj k"
      by (cases obj) (auto simp: weak_map_of_SomeI dest: map_of_SomeD intro: rev_image_eqI split: option.splits if_splits)
    then have "\<not> has_path (getprop obj k) (k' # ks)" using "3.prems" by simp
    then have "baseUnset (getprop obj k) (k' # ks) = getprop obj k"
      using "3.IH" True by simp
    then show ?thesis using True by (simp add: Let_def assignValue_getprop)
  qed
qed (simp_all add: deleteprop_absent)

lemma lodash_unset_no_path:
  "\<not> has_path obj (castPath p obj) \<Longrightarrow> lodash_unset obj p = obj"
  by (simp add: lodash_unset_def baseUnset_no_path)

lemma lodash_unset_empty [simp]: "lodash_unset (JObj []) p = JObj []"
proof -
  have "\<not> has_path (JObj []) ks" for ks
    by (induction "JObj []" ks rule: has_path.induct) simp_all
  then show ?thesis by (rule lodash_unset_no_path)
qed








section \<open>Construction and clearing of the file-backed driver\<close>

text \<open>
  Claim C7. When the snapshot file exists and its text does not parse, the construction of
  the driver fails with "Database malformed" and yields no driver. When the file does not
  exist, construction succeeds with an empty store and has written the text \<open>{}\<close> to the
  file.
\<close>

theorem construction_loads_or_fails:
  "(JSON_parse rt contents = None \<longrightarrow>
      JSONDriver_new rt (Some contents) = Inl DatabaseMalformed) \<and>
   JSONDriver_new rt None =
     Inr \<lparr>store = [], disk = Some ''{}'', effects = [FileWrite ''{}'']\<rparr>"
  by (simp add: JSONDriver_new_def loadContentSync_def)

text \<open>The theorem on a file whose text is no JSON.\<close>

theorem construction_loads_or_fails_witness:
  "JSONDriver_new example_runtime (Some ''{oops'') = Inl DatabaseMalformed \<and>
   JSONDriver_new example_runtime None =
     Inr \<lparr>store = [], disk = Some ''{}'', effects = [FileWrite ''{}'']\<rparr>"
proof -
  have p: "JSON_parse example_runtime ''{oops'' = None" by (simp add: example_runtime_def)
  show ?thesis
    using construction_loads_or_fails[of example_runtime "''{oops''"] p by blast
qed










end
